theory Spec2Isabelle
  imports Complex_Main "HOL-Library.AList"
begin

section \<open>JavaScript values\<close>

text \<open>
  The values that travel through \<^verbatim>\<open>grab\<close> (request params, decoded payloads, the fields
  of a response container). Numbers are idealised as integers; \<open>JNaN\<close> is the result of
  \<^verbatim>\<open>undefined + 1\<close>. An object is the list of its own properties in enumeration order
  (insertion order for the non-index keys that request params use).
\<close>

datatype jsval =
    JUndef
  | JNull
  | JNaN
  | JBool bool
  | JNum int
  | JStr string
  | JArr "jsval list"
  | JObj "(string \<times> jsval) list"

type_synonym obj = "(string \<times> jsval) list"

definition truthy :: "jsval \<Rightarrow> bool" where
  "truthy v = (case v of
       JUndef \<Rightarrow> False
     | JNull \<Rightarrow> False
     | JNaN \<Rightarrow> False
     | JBool b \<Rightarrow> b
     | JNum n \<Rightarrow> n \<noteq> 0
     | JStr s \<Rightarrow> s \<noteq> []
     | JArr _ \<Rightarrow> True
     | JObj _ \<Rightarrow> True)"

text \<open>\<^verbatim>\<open>o[k]\<close>: a missing property reads as \<^verbatim>\<open>undefined\<close>.\<close>

definition get_field :: "obj \<Rightarrow> string \<Rightarrow> jsval" where
  "get_field ob k = (case map_of ob k of None \<Rightarrow> JUndef | Some v \<Rightarrow> v)"

text \<open>\<^verbatim>\<open>o[k] = v\<close> keeps the position of an existing key and appends a new one.\<close>

definition set_field :: "string \<Rightarrow> jsval \<Rightarrow> obj \<Rightarrow> obj" where
  "set_field k v ob = AList.update k v ob"

text \<open>\<^verbatim>\<open>delete o[k]\<close>.\<close>

definition delete_field :: "string \<Rightarrow> obj \<Rightarrow> obj" where
  "delete_field k ob = AList.delete k ob"

subsection \<open>Number and string conversion\<close>

definition digit_char :: "nat \<Rightarrow> char" where
  "digit_char d = ''0123456789abcdef'' ! (d mod 16)"

fun show_nat :: "nat \<Rightarrow> string" where
  "show_nat n = (if n < 10 then [digit_char n] else show_nat (n div 10) @ [digit_char (n mod 10)])"

declare show_nat.simps [simp del]

definition show_int :: "int \<Rightarrow> string" where
  "show_int i = (if i < 0 then CHR ''-'' # show_nat (nat (- i)) else show_nat (nat i))"

fun join_with :: "string \<Rightarrow> string list \<Rightarrow> string" where
  "join_with sep [] = []"
| "join_with sep [x] = x"
| "join_with sep (x # y # zs) = x @ sep @ join_with sep (y # zs)"

text \<open>
  \<^verbatim>\<open>JSON.stringify\<close> on a string: the quote, the backslash and the control characters are
  escaped.
\<close>

definition json_escape :: "char \<Rightarrow> string" where
  "json_escape c =
     (if c = CHR 0x22 then [CHR 0x5C, CHR 0x22]
      else if c = CHR 0x5C then [CHR 0x5C, CHR 0x5C]
      else if c = CHR 0x08 then [CHR 0x5C, CHR ''b'']
      else if c = CHR 0x0C then [CHR 0x5C, CHR ''f'']
      else if c = CHR 0x0A then [CHR 0x5C, CHR ''n'']
      else if c = CHR 0x0D then [CHR 0x5C, CHR ''r'']
      else if c = CHR 0x09 then [CHR 0x5C, CHR ''t'']
      else if (of_char c :: nat) < 32
        then [CHR 0x5C, CHR ''u'', CHR ''0'', CHR ''0'',
              digit_char (of_char c div 16), digit_char (of_char c mod 16)]
      else [c])"

definition json_quote :: "string \<Rightarrow> string" where
  "json_quote s = CHR 0x22 # concat (map json_escape s) @ [CHR 0x22]"

text \<open>
  \<^verbatim>\<open>JSON.stringify\<close>: a property whose value is \<^verbatim>\<open>undefined\<close> is left out of an object,
  an \<^verbatim>\<open>undefined\<close> array element is written \<^verbatim>\<open>null\<close>, the properties are written in
  enumeration order, no key is sorted.
\<close>

primrec json :: "jsval \<Rightarrow> string"
  and json_elems :: "jsval list \<Rightarrow> string list"
  and json_props :: "(string \<times> jsval) list \<Rightarrow> string list"
  and json_prop :: "string \<times> jsval \<Rightarrow> string list"
where
  "json JUndef = []"
| "json JNull = ''null''"
| "json JNaN = ''null''"
| "json (JBool b) = (if b then ''true'' else ''false'')"
| "json (JNum n) = show_int n"
| "json (JStr s) = json_quote s"
| "json (JArr vs) = ''['' @ join_with '','' (json_elems vs) @ '']''"
| "json (JObj kvs) = ''{'' @ join_with '','' (json_props kvs) @ ''}''"
| "json_elems [] = []"
| "json_elems (v # vs) = (if v = JUndef then ''null'' else json v) # json_elems vs"
| "json_props [] = []"
| "json_props (p # ps) = json_prop p @ json_props ps"
| "json_prop (k, v) = (if v = JUndef then [] else [json_quote k @ '':'' @ json v])"

definition JSON_stringify :: "obj \<Rightarrow> string" where
  "JSON_stringify ob = json (JObj ob)"


section \<open>Options, history entries and the process-wide state\<close>

text \<open>
  \<^verbatim>\<open>GrabOptions\<close>: every recognised option may be absent (\<open>None\<close>; an option set to
  \<^verbatim>\<open>undefined\<close> is not told apart from an absent one); \<open>o_params\<close> is the
  rest of the object (\<^verbatim>\<open>...params\<close>), in insertion order. The response container is an
  object the caller keeps a reference to, so the option holds its address in the store.
  Seconds are whole numbers, except the two pure delays (\<open>debounce\<close>, \<open>repeatEvery\<close>).
  Not modelled: headers, debug logging, the hooks (\<^verbatim>\<open>onRequest\<close>, \<^verbatim>\<open>onResponse\<close>,
  \<^verbatim>\<open>onError\<close>, \<^verbatim>\<open>onStream\<close>), the projection-function form of \<^verbatim>\<open>response\<close>, mock
  handlers (\<^verbatim>\<open>grab.mock\<close> stays \<^verbatim>\<open>{}\<close>) and the browser-only listeners (\<^verbatim>\<open>regrabOn*\<close>, the
  scroll listener), which only register callbacks that the host runs later.
\<close>

record options =
  o_response :: "nat option"
  o_method :: "string option"
  o_post :: "bool option"
  o_put :: "bool option"
  o_patch :: "bool option"
  o_cache :: "bool option"
  o_cacheForTime :: "int option"
  o_timeout :: "int option"
  o_baseURL :: "string option"
  o_cancelOngoingIfNew :: "bool option"
  o_cancelNewIfOngoing :: "bool option"
  o_rateLimit :: "int option"
  o_infiniteScroll :: "(string \<times> string) option"
  o_setDefaults :: "bool option"
  o_retryAttempts :: "int option"
  o_repeatEvery :: "rat option"
  o_repeat :: "int option"
  o_debounce :: "rat option"
  o_params :: obj

definition no_options :: options where
  "no_options = \<lparr>o_response = None, o_method = None, o_post = None, o_put = None,
     o_patch = None, o_cache = None, o_cacheForTime = None, o_timeout = None,
     o_baseURL = None, o_cancelOngoingIfNew = None, o_cancelNewIfOngoing = None,
     o_rateLimit = None, o_infiniteScroll = None, o_setDefaults = None,
     o_retryAttempts = None, o_repeatEvery = None, o_repeat = None, o_debounce = None,
     o_params = []\<rparr>"

text \<open>\<^verbatim>\<open>GrabLogEntry\<close>, as the three \<^verbatim>\<open>grab.log.unshift\<close> calls fill it.\<close>

record entry =
  e_path :: string
  e_request :: string
  e_response :: "nat option"
  e_error :: "string option"
  lastFetchTime :: "int option"
  controller :: "nat option"
  currentPage :: "jsval option"

text \<open>
  What the transport receives: \<^verbatim>\<open>fetch(baseURL + path + paramsGETRequest, fetchParams)\<close>.
  The query string is \<^verbatim>\<open>URLSearchParams(params)\<close>; the model keeps the params it encodes.
\<close>

datatype signal = ControllerSignal nat | TimeoutSignal int | NoSignal

record fetch_call =
  f_url :: string
  f_method :: string
  f_body :: jsval
  f_query :: "obj option"
  f_cache :: string
  f_signal :: signal

text \<open>
  What the transport answers, after the body is decoded by content type: \<^verbatim>\<open>fetch\<close> rejects
  (network failure, abort, timeout), the status is not ok, decoding fails, or a payload.
\<close>

datatype reply =
    NetworkFailure string
  | HttpError nat string
  | ParseFailure string
  | Payload jsval

text \<open>
  The transport is the environment: from the number of earlier invocations and the call it
  gives the reply and the milliseconds that passed while the call was awaited.
\<close>

type_synonym transport = "nat \<Rightarrow> fetch_call \<Rightarrow> reply \<times> nat"

text \<open>
  \<^verbatim>\<open>grab.log\<close> (newest first), \<^verbatim>\<open>grab.defaults\<close>, the store of container objects (by
  address; \<open>next_ref\<close> is the next address that is free), the
  abort controllers that were aborted, the transport invocations so far (oldest first),
  the \<^verbatim>\<open>setInterval\<close> registrations and \<^verbatim>\<open>Date.now()\<close>. Calls run one after the other: the
  clock moves only while a transport call is awaited.
\<close>

record state =
  grab_log :: "entry list"
  grab_defaults :: options
  heap :: "(nat \<times> obj) list"
  next_ref :: nat
  next_controller :: nat
  aborted :: "nat list"
  sent :: "fetch_call list"
  intervals :: "(string \<times> options \<times> rat) list"
  now :: int

text \<open>The object at an address. An address that was never written holds the empty object.\<close>

definition object_at :: "state \<Rightarrow> nat \<Rightarrow> obj" where
  "object_at s a = (case map_of (heap s) a of None \<Rightarrow> [] | Some ob \<Rightarrow> ob)"

datatype ret = RUndefined | RObject nat | RFunction

datatype outcome = Resolved ret | Rejected string

text \<open>How the \<^verbatim>\<open>try\<close> block ends: a \<^verbatim>\<open>return\<close>, or a throw with \<^verbatim>\<open>params\<close> as they are then.\<close>

datatype flow = Return ret | Throw string obj

section \<open>Destructuring the options\<close>

definition dflt :: "'a \<Rightarrow> 'a option \<Rightarrow> 'a" where
  "dflt d x = (case x of None \<Rightarrow> d | Some v \<Rightarrow> v)"

definition orelse :: "'a option \<Rightarrow> 'a option \<Rightarrow> 'a option" where
  "orelse x y = (case x of None \<Rightarrow> y | Some v \<Rightarrow> Some v)"

text \<open>\<^verbatim>\<open>{...a, ...b}\<close> on the rest params.\<close>

definition spread :: "obj \<Rightarrow> obj \<Rightarrow> obj" where
  "spread a b = fold (\<lambda>kv. set_field (fst kv) (snd kv)) b a"

text \<open>\<^verbatim>\<open>{...grab.defaults, ...options}\<close>: key by key, the call's options win.\<close>

definition merge_options :: "options \<Rightarrow> options option \<Rightarrow> options" where
  "merge_options d oo = (case oo of
       None \<Rightarrow> d
     | Some p \<Rightarrow>
         \<lparr>o_response = orelse (o_response p) (o_response d),
          o_method = orelse (o_method p) (o_method d),
          o_post = orelse (o_post p) (o_post d),
          o_put = orelse (o_put p) (o_put d),
          o_patch = orelse (o_patch p) (o_patch d),
          o_cache = orelse (o_cache p) (o_cache d),
          o_cacheForTime = orelse (o_cacheForTime p) (o_cacheForTime d),
          o_timeout = orelse (o_timeout p) (o_timeout d),
          o_baseURL = orelse (o_baseURL p) (o_baseURL d),
          o_cancelOngoingIfNew = orelse (o_cancelOngoingIfNew p) (o_cancelOngoingIfNew d),
          o_cancelNewIfOngoing = orelse (o_cancelNewIfOngoing p) (o_cancelNewIfOngoing d),
          o_rateLimit = orelse (o_rateLimit p) (o_rateLimit d),
          o_infiniteScroll = orelse (o_infiniteScroll p) (o_infiniteScroll d),
          o_setDefaults = orelse (o_setDefaults p) (o_setDefaults d),
          o_retryAttempts = orelse (o_retryAttempts p) (o_retryAttempts d),
          o_repeatEvery = orelse (o_repeatEvery p) (o_repeatEvery d),
          o_repeat = orelse (o_repeat p) (o_repeat d),
          o_debounce = orelse (o_debounce p) (o_debounce d),
          o_params = spread (o_params d) (o_params p)\<rparr>)"

text \<open>\<^verbatim>\<open>method = options?.post ? "POST" : options?.put ? "PUT" : options?.patch ? "PATCH" : "GET"\<close>\<close>

definition method_of :: "options option \<Rightarrow> options \<Rightarrow> string" where
  "method_of oo m = (case o_method m of
       Some x \<Rightarrow> x
     | None \<Rightarrow>
         (case oo of
            None \<Rightarrow> ''GET''
          | Some p \<Rightarrow>
              if dflt False (o_post p) then ''POST''
              else if dflt False (o_put p) then ''PUT''
              else if dflt False (o_patch p) then ''PATCH''
              else ''GET''))"

definition starts_with :: "string \<Rightarrow> string \<Rightarrow> bool" where
  "starts_with t p = (take (length t) p = t)"

definition ends_with :: "string \<Rightarrow> string \<Rightarrow> bool" where
  "ends_with t p = (drop (length p - length t) p = t)"

text \<open>Lines 121-124: joining \<^verbatim>\<open>baseURL\<close> and \<^verbatim>\<open>path\<close>. The result is (baseURL, path).\<close>

definition join_url :: "string \<Rightarrow> string \<Rightarrow> string \<times> string" where
  "join_url baseURL path =
     (if starts_with ''http:'' path \<or> starts_with ''https:'' path then ([], path)
      else if \<not> starts_with ''/'' path \<and> \<not> ends_with ''/'' baseURL then (baseURL, ''/'' @ path)
      else if starts_with ''/'' path \<and> ends_with ''/'' baseURL then (baseURL, tl path)
      else (baseURL, path))"

text \<open>\<^verbatim>\<open>response = {}\<close>: without a container of the caller, each invocation makes a new object.\<close>

definition new_object :: "obj \<Rightarrow> state \<Rightarrow> nat \<times> state" where
  "new_object ob s =
     (next_ref s,
      s\<lparr>heap := AList.update (next_ref s) ob (heap s), next_ref := Suc (next_ref s)\<rparr>)"

definition response_var :: "options \<Rightarrow> state \<Rightarrow> nat \<times> state" where
  "response_var m s = (case o_response m of Some a \<Rightarrow> (a, s) | None \<Rightarrow> new_object [] s)"


text \<open>The destructured values, with the defaults of lines 72-110.\<close>

definition cache :: "options \<Rightarrow> bool" where
  "cache m = dflt False (o_cache m)"

definition cacheForTime :: "options \<Rightarrow> int" where
  "cacheForTime m = dflt 60 (o_cacheForTime m)"

definition timeout :: "options \<Rightarrow> int" where
  "timeout m = dflt 30 (o_timeout m)"

text \<open>The environment variable \<^verbatim>\<open>SERVER_API_URL\<close> is taken to be unset.\<close>

definition baseURL_of :: "options \<Rightarrow> string" where
  "baseURL_of m = dflt ''/api/'' (o_baseURL m)"

definition cancelOngoingIfNew :: "options \<Rightarrow> bool" where
  "cancelOngoingIfNew m = dflt False (o_cancelOngoingIfNew m)"

definition cancelNewIfOngoing :: "options \<Rightarrow> bool" where
  "cancelNewIfOngoing m = dflt False (o_cancelNewIfOngoing m)"

definition rateLimit :: "options \<Rightarrow> int" where
  "rateLimit m = dflt 0 (o_rateLimit m)"

definition repeat_of :: "options \<Rightarrow> int" where
  "repeat_of m = dflt 0 (o_repeat m)"

definition repeatEvery :: "options \<Rightarrow> rat" where
  "repeatEvery m = dflt 0 (o_repeatEvery m)"

definition debounce :: "options \<Rightarrow> rat" where
  "debounce m = dflt 0 (o_debounce m)"

text \<open>
  \<^verbatim>\<open>var [paginateKey, paginateResult] = infiniteScroll || []\<close>. An absent key is written \<open>[]\<close>:
  like the empty string it is falsy.
\<close>

definition paginateKey :: "options \<Rightarrow> string" where
  "paginateKey m = (case o_infiniteScroll m of None \<Rightarrow> [] | Some kr \<Rightarrow> fst kr)"

definition paginateResult :: "options \<Rightarrow> string option" where
  "paginateResult m = map_option snd (o_infiniteScroll m)"

section \<open>The history lookup\<close>

text \<open>\<^verbatim>\<open>Array.prototype.find\<close>: the first match from the head, with its position.\<close>

fun find_first :: "('a \<Rightarrow> bool) \<Rightarrow> 'a list \<Rightarrow> (nat \<times> 'a) option" where
  "find_first P [] = None"
| "find_first P (x # xs) =
     (if P x then Some (0, x)
      else map_option (\<lambda>ix. (Suc (fst ix), snd ix)) (find_first P xs))"

text \<open>Lines 223-225: the pagination cursor is set to \<^verbatim>\<open>undefined\<close>, which the text leaves out.\<close>

definition paramsAsText :: "options \<Rightarrow> string" where
  "paramsAsText m =
     JSON_stringify (if paginateKey m \<noteq> [] then set_field (paginateKey m) JUndef (o_params m)
                     else o_params m)"

text \<open>Lines 226-228.\<close>

definition priorRequest :: "string \<Rightarrow> options \<Rightarrow> state \<Rightarrow> (nat \<times> entry) option" where
  "priorRequest path m s =
     find_first (\<lambda>e. e_request e = paramsAsText m \<and> e_path e = path) (grab_log s)"

text \<open>A write through the reference \<^verbatim>\<open>priorRequest\<close>: the entry is changed where it lies.\<close>

definition update_at :: "nat \<Rightarrow> ('a \<Rightarrow> 'a) \<Rightarrow> 'a list \<Rightarrow> 'a list" where
  "update_at i f xs = (if i < length xs then xs[i := f (xs ! i)] else xs)"

section \<open>Pagination\<close>

text \<open>
  \<^verbatim>\<open>String(v)\<close>: an array is its elements joined by commas, with \<^verbatim>\<open>null\<close> and \<^verbatim>\<open>undefined\<close>
  written as nothing.
\<close>

primrec to_string :: "jsval \<Rightarrow> string"
  and to_string_elems :: "jsval list \<Rightarrow> string list"
where
  "to_string JUndef = ''undefined''"
| "to_string JNull = ''null''"
| "to_string JNaN = ''NaN''"
| "to_string (JBool b) = (if b then ''true'' else ''false'')"
| "to_string (JNum n) = show_int n"
| "to_string (JStr s) = s"
| "to_string (JArr vs) = join_with '','' (to_string_elems vs)"
| "to_string (JObj kvs) = ''[object Object]''"
| "to_string_elems [] = []"
| "to_string_elems (v # vs) =
     (if v = JUndef \<or> v = JNull then [] else to_string v) # to_string_elems vs"

text \<open>\<^verbatim>\<open>v + 1\<close>.\<close>

definition js_plus1 :: "jsval \<Rightarrow> jsval" where
  "js_plus1 v = (case v of
       JUndef \<Rightarrow> JNaN
     | JNull \<Rightarrow> JNum 1
     | JNaN \<Rightarrow> JNaN
     | JBool b \<Rightarrow> JNum (if b then 2 else 1)
     | JNum n \<Rightarrow> JNum (n + 1)
     | JStr s \<Rightarrow> JStr (s @ ''1'')
     | JArr vs \<Rightarrow> JStr (to_string (JArr vs) @ ''1'')
     | JObj kvs \<Rightarrow> JStr (to_string (JObj kvs) @ ''1''))"

text \<open>\<^verbatim>\<open>a || b\<close>.\<close>

definition js_or :: "jsval \<Rightarrow> jsval \<Rightarrow> jsval" where
  "js_or a b = (if truthy a then a else b)"

text \<open>
  Lines 253-260:
  \<^verbatim>\<open>priorRequest?.currentPage + 1 || params?.[paginateKey] || 1\<close>, and 1 without a prior request.
\<close>

definition pageNumber :: "string \<Rightarrow> options \<Rightarrow> state \<Rightarrow> jsval" where
  "pageNumber path m s = (case priorRequest path m s of
       None \<Rightarrow> JNum 1
     | Some ie \<Rightarrow>
         js_or (js_or (js_plus1 (dflt JUndef (currentPage (snd ie))))
                      (get_field (o_params m) (paginateKey m)))
               (JNum 1))"

text \<open>Line 264: \<^verbatim>\<open>params\<close> from there on.\<close>

definition call_params :: "string \<Rightarrow> options \<Rightarrow> state \<Rightarrow> obj" where
  "call_params path m s =
     (if paginateKey m = [] then o_params m
      else set_field (paginateKey m) (pageNumber path m s) (o_params m))"

section \<open>The body of the call\<close>

text \<open>The messages of the \<^verbatim>\<open>TypeError\<close>s that the body can throw, as V8 words them.\<close>

definition TypeError_read_res :: string where
  "TypeError_read_res = ''Cannot read properties of undefined (reading 'res')''"

definition TypeError_keys :: string where
  "TypeError_keys = ''Cannot convert undefined or null to object''"

definition TypeError_not_iterable :: string where
  "TypeError_not_iterable =
     ''Spread syntax requires ...iterable[Symbol.iterator] to be a function''"

definition TypeError_read_retryAttempts :: string where
  "TypeError_read_retryAttempts =
     ''Cannot read properties of undefined (reading 'retryAttempts')''"

definition clear_fields :: "obj \<Rightarrow> obj" where
  "clear_fields ob = map (\<lambda>kv. (fst kv, JUndef)) ob"

definition on_container :: "nat \<Rightarrow> (obj \<Rightarrow> obj) \<Rightarrow> state \<Rightarrow> state" where
  "on_container a f s = s\<lparr>heap := AList.update a (f (object_at s a)) (heap s)\<rparr>"

text \<open>
  Lines 238-242. The comparison with an absent \<^verbatim>\<open>lastFetchTime\<close> (no prior request, or an
  entry that records an error) is false.
\<close>

definition cache_hit :: "string \<Rightarrow> options \<Rightarrow> state \<Rightarrow> bool" where
  "cache_hit path m s =
     (cache m \<and>
      (cacheForTime m = 0 \<or>
       (case priorRequest path m s of
          None \<Rightarrow> False
        | Some ie \<Rightarrow>
            (case lastFetchTime (snd ie) of
               None \<Rightarrow> False
             | Some t \<Rightarrow> now s - 1000 * cacheForTime m < t))))"

text \<open>
  Lines 230-271. In the cache branch line 244 reads \<^verbatim>\<open>priorRequest.res\<close>: no entry has a
  property \<^verbatim>\<open>res\<close> (the recorded response is \<^verbatim>\<open>response\<close>), so \<^verbatim>\<open>Object.keys\<close> gets
  \<^verbatim>\<open>undefined\<close> and throws, and without a prior request the read itself throws.
  The result is the thrown message, if any.
\<close>

definition prepare :: "string \<Rightarrow> options \<Rightarrow> nat \<Rightarrow> state \<Rightarrow> string option \<times> state" where
  "prepare path m response s =
     (if paginateKey m = [] then
        (let s1 = on_container response clear_fields s in
         if cache_hit path m s
         then (Some (case priorRequest path m s of
                       None \<Rightarrow> TypeError_read_res
                     | Some ie \<Rightarrow> TypeError_keys), s1)
         else (None, on_container response (set_field ''isLoading'' (JBool True)) s1))
      else
        (let s1 = (case priorRequest path m s of
                     None \<Rightarrow>
                       (case paginateResult m of
                          None \<Rightarrow> s
                        | Some r \<Rightarrow> on_container response (set_field r (JArr [])) s)
                   | Some ie \<Rightarrow>
                       s\<lparr>grab_log := update_at (fst ie)
                            (\<lambda>e. e\<lparr>currentPage := Some (pageNumber path m s)\<rparr>) (grab_log s)\<rparr>)
         in (None, on_container response (set_field ''isLoading'' (JBool True)) s1)))"

text \<open>Lines 274-280.\<close>

definition rate_limited :: "string \<Rightarrow> options \<Rightarrow> state \<Rightarrow> bool" where
  "rate_limited path m s =
     (0 < rateLimit m \<and>
      (case priorRequest path m s of
         None \<Rightarrow> False
       | Some ie \<Rightarrow>
           (case lastFetchTime (snd ie) of
              None \<Rightarrow> False
            | Some t \<Rightarrow> t \<noteq> 0 \<and> now s - 1000 * rateLimit m < t)))"

definition rate_limit_message :: "string \<Rightarrow> int \<Rightarrow> string" where
  "rate_limit_message path r =
     ''Fetch rate limit exceeded for '' @ path @ ''. '' @ [CHR 0x0A] @ ''        Wait ''
       @ show_int r @ ''s between requests.''"

text \<open>Lines 285-287: the controller of the prior request, if it still has one.\<close>

definition prior_controller :: "string \<Rightarrow> options \<Rightarrow> state \<Rightarrow> nat option" where
  "prior_controller path m s = (case priorRequest path m s of
       None \<Rightarrow> None
     | Some ie \<Rightarrow> controller (snd ie))"

text \<open>Lines 290-296: the new request is put at the head of the log with its own controller.\<close>

definition track :: "string \<Rightarrow> options \<Rightarrow> state \<Rightarrow> state" where
  "track path m s =
     s\<lparr>grab_log :=
         \<lparr>e_path = path, e_request = paramsAsText m, e_response = None, e_error = None,
          lastFetchTime = Some (now s), controller = Some (next_controller s),
          currentPage = None\<rparr> # grab_log s,
       next_controller := Suc (next_controller s)\<rparr>"

text \<open>Lines 300-324.\<close>

definition head_signal :: "state \<Rightarrow> signal" where
  "head_signal s = (case grab_log s of
       [] \<Rightarrow> NoSignal
     | e # es \<Rightarrow> (case controller e of None \<Rightarrow> NoSignal | Some c \<Rightarrow> ControllerSignal c))"

definition fetch_request ::
  "options option \<Rightarrow> options \<Rightarrow> string \<Rightarrow> string \<Rightarrow> obj \<Rightarrow> state \<Rightarrow> fetch_call" where
  "fetch_request oo m baseURL path params s =
     (let sends_body = (method_of oo m \<in> set [''POST'', ''PUT'', ''PATCH'']) in
      \<lparr>f_url = baseURL @ path,
       f_method = method_of oo m,
       f_body = (if sends_body
                 then js_or (get_field params ''body'') (JStr (JSON_stringify params))
                 else get_field params ''body''),
       f_query = (if sends_body then None else Some params),
       f_cache = (if cache m then ''force-cache'' else ''no-store''),
       f_signal = (if cancelOngoingIfNew m then head_signal s
                   else TimeoutSignal (timeout m * 1000))\<rparr>)"

text \<open>Lines 358-382: the failures of the transport, as the messages that are thrown.\<close>

definition reply_result :: "reply \<Rightarrow> string + jsval" where
  "reply_result r = (case r of
       NetworkFailure msg \<Rightarrow> Inl msg
     | HttpError status statusText \<Rightarrow>
         Inl (''HTTP error: '' @ show_nat status @ '' '' @ statusText)
     | ParseFailure e \<Rightarrow> Inl (''Error parsing response: '' @ e)
     | Payload v \<Rightarrow> Inr v)"


subsection \<open>Storing the payload\<close>

text \<open>\<^verbatim>\<open>v?.length\<close>\<close>

definition js_length :: "jsval \<Rightarrow> jsval" where
  "js_length v = (case v of
       JArr vs \<Rightarrow> JNum (int (length vs))
     | JStr s \<Rightarrow> JNum (int (length s))
     | JObj kvs \<Rightarrow> get_field kvs ''length''
     | _ \<Rightarrow> JUndef)"

text \<open>\<^verbatim>\<open>...v\<close> in an array literal: the elements of an array, the characters of a string.\<close>

definition iterate :: "jsval \<Rightarrow> jsval list option" where
  "iterate v = (case v of
       JArr vs \<Rightarrow> Some vs
     | JStr s \<Rightarrow> Some (map (\<lambda>c. JStr [c]) s)
     | _ \<Rightarrow> None)"

text \<open>
  Lines 428-432, over the properties of the payload in order:
  \<^verbatim>\<open>response[key] = paginateResult == key && response[key]?.length
       ? [...response[key], ...res[key]] : res[key]\<close>.
  The result is the thrown message, if any, and the container as it is then.
\<close>

fun merge_fields :: "string option \<Rightarrow> obj \<Rightarrow> obj \<Rightarrow> string option \<times> obj" where
  "merge_fields pr [] ob = (None, ob)"
| "merge_fields pr (kv # rest) ob =
     (if pr = Some (fst kv) \<and> truthy (js_length (get_field ob (fst kv))) then
        (case iterate (get_field ob (fst kv)) of
           None \<Rightarrow> (Some TypeError_not_iterable, ob)
         | Some old \<Rightarrow>
             (case iterate (snd kv) of
                None \<Rightarrow> (Some TypeError_not_iterable, ob)
              | Some new \<Rightarrow> merge_fields pr rest (set_field (fst kv) (JArr (old @ new)) ob)))
      else merge_fields pr rest (set_field (fst kv) (snd kv) ob))"

text \<open>\<^verbatim>\<open>Object.keys\<close> with the values: the properties of an object, the indices of an array.\<close>

definition own_props :: "jsval \<Rightarrow> obj" where
  "own_props v = (case v of
       JObj kvs \<Rightarrow> kvs
     | JArr vs \<Rightarrow> zip (map show_nat [0..<length vs]) vs
     | _ \<Rightarrow> [])"

text \<open>
  Lines 427-436. \<^verbatim>\<open>typeof res === "object"\<close> holds for objects, arrays and \<^verbatim>\<open>null\<close>, and
  \<^verbatim>\<open>Object.keys(null)\<close> throws. In every other case only \<^verbatim>\<open>response.data\<close> is set.
\<close>

definition typeof_object :: "jsval \<Rightarrow> bool" where
  "typeof_object v = (case v of
       JNull \<Rightarrow> True
     | JArr vs \<Rightarrow> True
     | JObj kvs \<Rightarrow> True
     | _ \<Rightarrow> False)"

definition store_result :: "string option \<Rightarrow> jsval \<Rightarrow> obj \<Rightarrow> string option \<times> obj" where
  "store_result pr res ob =
     (if typeof_object res then
        (if res = JNull then (Some TypeError_keys, ob)
         else
           (case merge_fields pr (own_props res) ob of
              (Some msg, ob') \<Rightarrow> (Some msg, ob')
            | (None, ob') \<Rightarrow> (None, set_field ''data'' res ob')))
      else (None, set_field ''data'' res ob))"

text \<open>
  Lines 395-449, after the payload has arrived: the loading flag is deleted, the controller
  of the prior request is deleted (its entry lies one place further since line 291), the
  payload is stored and the response is recorded at the head of the log. Line 442 sets the
  property named \<^verbatim>\<open>paginateKey\<close>, not the cursor, to \<^verbatim>\<open>undefined\<close>.
\<close>

definition finish ::
  "string \<Rightarrow> options \<Rightarrow> nat \<Rightarrow> (nat \<times> entry) option \<Rightarrow> obj \<Rightarrow> jsval \<Rightarrow> state \<Rightarrow> flow \<times> state" where
  "finish path m response prior params res s =
     (let s1 = on_container response (delete_field ''isLoading'') s;
          s2 = (case prior of
                  None \<Rightarrow> s1
                | Some ie \<Rightarrow>
                    s1\<lparr>grab_log := update_at (Suc (fst ie)) (\<lambda>e. e\<lparr>controller := None\<rparr>)
                                     (grab_log s1)\<rparr>)
      in case store_result (paginateResult m) res (object_at s2 response) of
           (Some msg, ob) \<Rightarrow>
             (Throw msg params, s2\<lparr>heap := AList.update response ob (heap s2)\<rparr>)
         | (None, ob) \<Rightarrow>
             (Return (RObject response),
              s2\<lparr>heap := AList.update response ob (heap s2),
                 grab_log :=
                   \<lparr>e_path = path,
                    e_request = JSON_stringify (set_field ''paginateKey'' JUndef params),
                    e_response = Some response, e_error = None,
                    lastFetchTime = Some (now s2), controller = None,
                    currentPage = None\<rparr> # grab_log s2\<rparr>))"

text \<open>Lines 358-383: the transport is invoked; the clock moves while it is awaited.\<close>

definition send :: "transport \<Rightarrow> fetch_call \<Rightarrow> state \<Rightarrow> reply \<times> state" where
  "send tr c s =
     (fst (tr (length (sent s)) c),
      s\<lparr>sent := sent s @ [c], now := now s + int (snd (tr (length (sent s)) c))\<rparr>)"

text \<open>
  Lines 285-287:
  \<^verbatim>\<open>if (priorRequest?.controller)
    if (cancelOngoingIfNew) priorRequest.controller.abort();
    else if (cancelNewIfOngoing) return { isLoading: true }\<close>
\<close>

definition rejects_new :: "string \<Rightarrow> options \<Rightarrow> state \<Rightarrow> bool" where
  "rejects_new path m s =
     (prior_controller path m s \<noteq> None \<and> \<not> cancelOngoingIfNew m \<and> cancelNewIfOngoing m)"

definition cancel_ongoing :: "string \<Rightarrow> options \<Rightarrow> state \<Rightarrow> state \<Rightarrow> state" where
  "cancel_ongoing path m s s1 = (case prior_controller path m s of
       None \<Rightarrow> s1
     | Some c \<Rightarrow> if cancelOngoingIfNew m then s1\<lparr>aborted := c # aborted s1\<rparr> else s1)"

text \<open>
  Lines 300-449: the request is built and sent in the state \<open>s3\<close>, and the reply is
  thrown or stored; \<open>s\<close> is the state in which the call began.
\<close>

definition transport_round ::
  "transport \<Rightarrow> options option \<Rightarrow> options \<Rightarrow> string \<Rightarrow> string \<Rightarrow> nat \<Rightarrow> state \<Rightarrow> state
     \<Rightarrow> flow \<times> state" where
  "transport_round tr oo m baseURL path response s s3 =
     (let params = call_params path m s;
          rs = send tr (fetch_request oo m baseURL path params s3) s3
      in case reply_result (fst rs) of
           Inl msg \<Rightarrow> (Throw msg params, snd rs)
         | Inr res \<Rightarrow> finish path m response (priorRequest path m s) params res (snd rs))"

text \<open>
  Lines 221-449 of the \<^verbatim>\<open>try\<close> block: lookup, cache and pagination, loading flag, rate limit,
  the two cancellation policies, the tracking entry, the transport, the result.
\<close>

definition attempt ::
  "transport \<Rightarrow> options option \<Rightarrow> options \<Rightarrow> string \<Rightarrow> string \<Rightarrow> nat \<Rightarrow> state \<Rightarrow> flow \<times> state" where
  "attempt tr oo m baseURL path response s =
     (case prepare path m response s of
        (Some msg, s1) \<Rightarrow> (Throw msg (call_params path m s), s1)
      | (None, s1) \<Rightarrow>
          if rate_limited path m s
          then (Throw (rate_limit_message path (rateLimit m)) (call_params path m s), s1)
          else if rejects_new path m s
          then (Return (RObject (fst (new_object [(''isLoading'', JBool True)] s1))),
                snd (new_object [(''isLoading'', JBool True)] s1))
          else transport_round tr oo m baseURL path response s
                 (track path m (cancel_ongoing path m s s1)))"

section \<open>grab\<close>

text \<open>Lines 467-485: the error is written into the container and recorded in the log.\<close>

definition record_error :: "string \<Rightarrow> obj \<Rightarrow> string \<Rightarrow> nat \<Rightarrow> state \<Rightarrow> state" where
  "record_error path params msg response s =
     (let s1 = on_container response
                 (\<lambda>ob. delete_field ''isLoading'' (set_field ''error'' (JStr msg) ob)) s
      in s1\<lparr>grab_log :=
              \<lparr>e_path = path, e_request = JSON_stringify params, e_response = None,
               e_error = Some msg, lastFetchTime = None, controller = None,
               currentPage = None\<rparr> # grab_log s1\<rparr>)"

text \<open>
  Lines 136-141: \<^verbatim>\<open>for (let i = 0; i < repeat; i++) await grab(path, {...options, repeat: 0})\<close>.
  A rejected call ends the loop with its error.
\<close>

fun repeat_loop ::
  "nat \<Rightarrow> (state \<Rightarrow> outcome \<times> state) \<Rightarrow> state \<Rightarrow> string option \<times> state" where
  "repeat_loop 0 call s = (None, s)"
| "repeat_loop (Suc n) call s =
     (case call s of
        (Rejected e, s') \<Rightarrow> (Some e, s')
      | (Resolved r, s') \<Rightarrow> repeat_loop n call s')"

lemma repeat_loop_cong [fundef_cong]:
  "n = n' \<Longrightarrow> s = s' \<Longrightarrow> (\<And>t. call t = call' t) \<Longrightarrow>
     repeat_loop n call s = repeat_loop n' call' s'"
proof -
  assume "n = n'" "s = s'" and eq: "\<And>t. call t = call' t"
  have "call = call'" using eq by (rule ext)
  with \<open>n = n'\<close> \<open>s = s'\<close> show ?thesis by simp
qed

text \<open>\<^verbatim>\<open>{...options, repeat: 0}\<close> and \<^verbatim>\<open>{...options, retryAttempts: --options.retryAttempts}\<close>\<close>

definition repeat_off :: "options option \<Rightarrow> options option" where
  "repeat_off oo = Some ((dflt no_options oo)\<lparr>o_repeat := Some 0\<rparr>)"

definition retry_less :: "options \<Rightarrow> options" where
  "retry_less p = p\<lparr>o_retryAttempts := Some (dflt 0 (o_retryAttempts p) - 1)\<rparr>"

text \<open>Lines 151-161: \<^verbatim>\<open>grab.defaults = {...options, setDefaults: undefined}\<close>\<close>

definition setDefaults :: "options option \<Rightarrow> bool" where
  "setDefaults oo = (case oo of None \<Rightarrow> False | Some p \<Rightarrow> dflt False (o_setDefaults p))"

definition store_defaults :: "options option \<Rightarrow> state \<Rightarrow> state" where
  "store_defaults oo s = s\<lparr>grab_defaults := (dflt no_options oo)\<lparr>o_setDefaults := None\<rparr>\<rparr>"

text \<open>
  Lines 142-147: \<^verbatim>\<open>setInterval\<close> is given the call with \<^verbatim>\<open>repeat: 0, repeatEvery: null\<close> and
  the period in milliseconds. The \<^verbatim>\<open>null\<close> is written 0: both are falsy and both override a
  default.
\<close>

definition set_interval :: "string \<Rightarrow> options option \<Rightarrow> rat \<Rightarrow> state \<Rightarrow> state" where
  "set_interval path oo period s =
     s\<lparr>intervals := intervals s @
         [(path, (dflt no_options oo)\<lparr>o_repeat := Some 0, o_repeatEvery := Some 0\<rparr>,
           period * 1000)]\<rparr>"

text \<open>
  The whole function. The \<^verbatim>\<open>try\<close> block first passes the scheduling gates: a positive
  \<^verbatim>\<open>debounce\<close> returns what \<^verbatim>\<open>await debouncer(...)\<close> gives, which is the function that
  \<^verbatim>\<open>debouncer\<close> builds (lines 505-515 call neither \<^verbatim>\<open>func\<close> nor \<^verbatim>\<open>setTimeout\<close> before
  that function is itself called, and line 129 never calls it); then \<^verbatim>\<open>repeat\<close>,
  \<^verbatim>\<open>repeatEvery\<close>, \<^verbatim>\<open>setDefaults\<close>. The \<^verbatim>\<open>catch\<close> block reads \<^verbatim>\<open>options.retryAttempts\<close>:
  with \<^verbatim>\<open>options\<close> left out this read throws inside the handler, and the promise rejects.
\<close>

function grab :: "transport \<Rightarrow> string \<Rightarrow> options option \<Rightarrow> state \<Rightarrow> outcome \<times> state" where
  "grab tr path0 oo s0 =
     (let m = merge_options (grab_defaults s0) oo;
          response = fst (response_var m s0);
          s = snd (response_var m s0);
          baseURL = fst (join_url (baseURL_of m) path0);
          path = snd (join_url (baseURL_of m) path0);
          tried =
            (if 0 < debounce m then (Return RFunction, s)
             else if 1 < repeat_of m then
               (case repeat_loop (nat (repeat_of m)) (grab tr path (repeat_off oo)) s of
                  (None, s') \<Rightarrow> (Return (RObject response), s')
                | (Some e, s') \<Rightarrow> (Throw e (o_params m), s'))
             else if repeatEvery m \<noteq> 0 then
               (Return (RObject response), set_interval path oo (repeatEvery m) s)
             else if setDefaults oo then (Return RUndefined, store_defaults oo s)
             else attempt tr oo m baseURL path response s)
      in case tried of
           (Return r, s') \<Rightarrow> (Resolved r, s')
         | (Throw msg params, s') \<Rightarrow>
             (case oo of
                None \<Rightarrow> (Rejected TypeError_read_retryAttempts, s')
              | Some p \<Rightarrow>
                  if 0 < dflt 0 (o_retryAttempts p)
                  then grab tr path (Some (retry_less p)) s'
                  else (Resolved (RObject response), record_error path params msg response s')))"
  by pat_completeness auto


text \<open>
  Every nested call either switches \<^verbatim>\<open>repeat\<close> off or spends one retry, so \<^verbatim>\<open>grab\<close> returns.
\<close>

definition repeat_pending :: "options option \<Rightarrow> nat" where
  "repeat_pending oo = (case oo of
       None \<Rightarrow> 1
     | Some p \<Rightarrow> if o_repeat p = Some 0 then 0 else 1)"

definition retries_left :: "options option \<Rightarrow> nat" where
  "retries_left oo = (case oo of None \<Rightarrow> 0 | Some p \<Rightarrow> nat (dflt 0 (o_retryAttempts p)))"

lemma repeat_pending_off: "repeat_pending (repeat_off oo) = 0"
  by (simp add: repeat_pending_def repeat_off_def)

lemma repeat_pending_on: "1 < repeat_of (merge_options d oo) \<Longrightarrow> repeat_pending oo = 1"
  by (auto simp: repeat_pending_def repeat_of_def merge_options_def orelse_def dflt_def
           split: option.splits)

lemma repeat_pending_retry: "repeat_pending (Some (retry_less p)) = repeat_pending (Some p)"
  by (simp add: repeat_pending_def retry_less_def)

lemma retries_left_retry:
  "0 < dflt 0 (o_retryAttempts p) \<Longrightarrow> retries_left (Some (retry_less p)) < retries_left (Some p)"
  by (simp add: retries_left_def retry_less_def dflt_def split: option.splits)

termination grab
proof (relation "measures [\<lambda>a. repeat_pending (fst (snd (snd a))),
                           \<lambda>a. retries_left (fst (snd (snd a)))]", goal_cases)
  case 1
  show ?case by simp
next
  case (2 tr path0 oo s0 m response s baseURL path t)
  then show ?case by (simp add: repeat_pending_off repeat_pending_on)
next
  case (3 tr path0 oo s0 m response s baseURL path tried x1 s' msg params p)
  then show ?case by (simp add: repeat_pending_retry retries_left_retry)
qed


declare grab.simps [simp del]

text \<open>
  Lines 517-543: the module sets \<^verbatim>\<open>grab.log = []\<close> and \<^verbatim>\<open>grab.defaults = {}\<close>. The store
  starts with the caller's objects \<open>h\<close>, at addresses below \<open>n\<close>.
\<close>

definition initial_state :: "(nat \<times> obj) list \<Rightarrow> nat \<Rightarrow> int \<Rightarrow> state" where
  "initial_state h n t =
     \<lparr>grab_log = [], grab_defaults = no_options, heap = h, next_ref = n,
      next_controller = 0, aborted = [], sent = [], intervals = [], now = t\<rparr>"


section \<open>Reading and writing fields\<close>

lemma get_set_field [simp]:
  "get_field (set_field k v ob) k' = (if k' = k then v else get_field ob k')"
  by (simp add: get_field_def set_field_def update_conv')

lemma get_delete_field [simp]:
  "get_field (delete_field k ob) k' = (if k' = k then JUndef else get_field ob k')"
  by (simp add: get_field_def delete_field_def delete_conv')



section \<open>A call that passes the scheduling gates\<close>



lemma response_var_frame:
  "sent (snd (response_var m s)) = sent s"
  "grab_defaults (snd (response_var m s)) = grab_defaults s"
  "grab_log (snd (response_var m s)) = grab_log s"
  "now (snd (response_var m s)) = now s"
  "intervals (snd (response_var m s)) = intervals s"
  "next_controller (snd (response_var m s)) = next_controller s"
  by (simp_all add: response_var_def new_object_def split: option.splits)

section \<open>One pass through the body\<close>












section \<open>Retry\<close>





text \<open>A transport that is down: every invocation fails after 10 ms.\<close>

definition tr_down :: transport where
  "tr_down i c = (NetworkFailure ''Failed to fetch'', 10)"






section \<open>Setting the defaults\<close>

text \<open>
  C10, as amended. A call with \<^verbatim>\<open>setDefaults: true\<close> that is not taken by an earlier
  scheduling gate (the merged \<^verbatim>\<open>debounce\<close> is not positive, \<^verbatim>\<open>repeat\<close> is at most 1,
  \<^verbatim>\<open>repeatEvery\<close> is unset) stores the supplied options without \<^verbatim>\<open>setDefaults\<close> as the
  process-wide defaults and returns \<^verbatim>\<open>undefined\<close>: nothing is sent, nothing is added to the
  log, no timer is set, and no object that existed before the call is changed.
\<close>

theorem set_defaults_stores:
  assumes "o_setDefaults p = Some True"
    and "debounce (merge_options (grab_defaults s) (Some p)) \<le> 0"
    and "repeat_of (merge_options (grab_defaults s) (Some p)) \<le> 1"
    and "repeatEvery (merge_options (grab_defaults s) (Some p)) = 0"
  shows "fst (grab tr path (Some p) s) = Resolved RUndefined \<and>
         grab_defaults (snd (grab tr path (Some p) s)) = p\<lparr>o_setDefaults := None\<rparr> \<and>
         sent (snd (grab tr path (Some p) s)) = sent s \<and>
         grab_log (snd (grab tr path (Some p) s)) = grab_log s \<and>
         intervals (snd (grab tr path (Some p) s)) = intervals s \<and>
         (\<forall>a. a \<noteq> next_ref s \<longrightarrow> object_at (snd (grab tr path (Some p) s)) a = object_at s a)"
  using assms
  by (subst (1 2 3 4 5 6) grab.simps)
     (simp add: Let_def setDefaults_def dflt_def store_defaults_def response_var_def
        new_object_def not_less object_at_def update_conv' split: option.splits)

text \<open>A store with one object of the caller, at address 0.\<close>

definition one_heap :: "(nat \<times> obj) list" where
  "one_heap = [(0, [(''id'', JNum 7)])]"

definition defaults_options :: options where
  "defaults_options = no_options\<lparr>o_response := Some 0, o_setDefaults := Some True, o_rateLimit := Some 5\<rparr>"

theorem set_defaults_stores_witness:
  "o_setDefaults defaults_options = Some True \<and>
   debounce (merge_options (grab_defaults (initial_state one_heap 1 1000)) (Some defaults_options)) \<le> 0 \<and>
   repeat_of (merge_options (grab_defaults (initial_state one_heap 1 1000)) (Some defaults_options)) \<le> 1 \<and>
   repeatEvery (merge_options (grab_defaults (initial_state one_heap 1 1000)) (Some defaults_options)) = 0 \<and>
   fst (grab tr_down ''things'' (Some defaults_options) (initial_state one_heap 1 1000)) = Resolved RUndefined \<and>
   o_rateLimit (grab_defaults (snd (grab tr_down ''things'' (Some defaults_options) (initial_state one_heap 1 1000)))) = Some 5 \<and>
   sent (snd (grab tr_down ''things'' (Some defaults_options) (initial_state one_heap 1 1000))) = [] \<and>
   grab_log (snd (grab tr_down ''things'' (Some defaults_options) (initial_state one_heap 1 1000))) = [] \<and>
   object_at (snd (grab tr_down ''things'' (Some defaults_options) (initial_state one_heap 1 1000))) 0 = [(''id'', JNum 7)]"
proof -
  have a: "o_setDefaults defaults_options = Some True" by code_simp
  have b: "debounce (merge_options (grab_defaults (initial_state one_heap 1 1000)) (Some defaults_options)) \<le> 0" by code_simp
  have c: "repeat_of (merge_options (grab_defaults (initial_state one_heap 1 1000)) (Some defaults_options)) \<le> 1" by code_simp
  have d: "repeatEvery (merge_options (grab_defaults (initial_state one_heap 1 1000)) (Some defaults_options)) = 0" by code_simp
  show ?thesis
    using a b c d set_defaults_stores[OF a b c d, of tr_down "''things''"]
    by (simp add: initial_state_def defaults_options_def one_heap_def object_at_def)
qed

definition repeat_defaults_options :: options where
  "repeat_defaults_options = no_options\<lparr>o_response := Some 0, o_setDefaults := Some True, o_repeat := Some 2\<rparr>"

text \<open>
  C10 as stated fails where the \<^verbatim>\<open>repeat\<close> gate comes first: with \<^verbatim>\<open>setDefaults: true\<close> and
  \<^verbatim>\<open>repeat: 2\<close> the call returns the response container, not \<^verbatim>\<open>undefined\<close>, and the
  defaults that the two inner calls store have \<^verbatim>\<open>repeat: 0\<close>, not the supplied value.
\<close>

theorem set_defaults_repeat_counterexample:
  "o_setDefaults repeat_defaults_options = Some True \<and>
   fst (grab tr_down ''things'' (Some repeat_defaults_options) (initial_state one_heap 1 1000)) = Resolved (RObject 0) \<and>
   o_repeat (grab_defaults (snd (grab tr_down ''things'' (Some repeat_defaults_options) (initial_state one_heap 1 1000)))) = Some 0"
  by code_simp

section \<open>The CallKey\<close>













section \<open>Worked calls\<close>

text \<open>Time that passes between two calls.\<close>

definition later :: "int \<Rightarrow> state \<Rightarrow> state" where
  "later ms s = s\<lparr>now := now s + ms\<rparr>"

text \<open>A transport that answers every request with \<^verbatim>\<open>{id: 1, name: "a"}\<close> after 100 ms.\<close>

definition tr_thing :: transport where
  "tr_thing i c = (Payload (JObj [(''id'', JNum 1), (''name'', JStr ''a'')]), 100)"

text \<open>The three kinds of entry in the log: lines 291-296, 440-445 and 481-485.\<close>

definition tracking :: "string \<Rightarrow> string \<Rightarrow> int \<Rightarrow> nat \<Rightarrow> entry" where
  "tracking path request t c =
     \<lparr>e_path = path, e_request = request, e_response = None, e_error = None,
      lastFetchTime = Some t, controller = Some c, currentPage = None\<rparr>"

definition succeeded :: "string \<Rightarrow> string \<Rightarrow> nat \<Rightarrow> int \<Rightarrow> entry" where
  "succeeded path request a t =
     \<lparr>e_path = path, e_request = request, e_response = Some a, e_error = None,
      lastFetchTime = Some t, controller = None, currentPage = None\<rparr>"

definition failed :: "string \<Rightarrow> string \<Rightarrow> string \<Rightarrow> entry" where
  "failed path request msg =
     \<lparr>e_path = path, e_request = request, e_response = None, e_error = Some msg,
      lastFetchTime = None, controller = None, currentPage = None\<rparr>"

definition get_things :: "string \<Rightarrow> fetch_call" where
  "get_things cache_mode =
     \<lparr>f_url = ''/api/things'', f_method = ''GET'', f_body = JUndef, f_query = Some [],
      f_cache = cache_mode, f_signal = TimeoutSignal 30000\<rparr>"

definition thing :: obj where
  "thing = [(''id'', JNum 1), (''name'', JStr ''a''),
            (''data'', JObj [(''id'', JNum 1), (''name'', JStr ''a'')])]"

definition cleared_thing :: "string \<Rightarrow> obj" where
  "cleared_thing msg =
     [(''id'', JUndef), (''name'', JUndef), (''data'', JUndef), (''error'', JStr msg)]"

subsection \<open>Two identical calls with caching\<close>

definition cache_options :: options where
  "cache_options =
     no_options\<lparr>o_response := Some 0, o_cache := Some True, o_cacheForTime := Some 60\<rparr>"

definition cached_1 :: state where
  "cached_1 =
     \<lparr>grab_log = [succeeded ''things'' ''{}'' 0 1100, tracking ''things'' ''{}'' 1000 0],
      grab_defaults = no_options, heap = [(0, thing)], next_ref = 1, next_controller = 1,
      aborted = [], sent = [get_things ''force-cache''], intervals = [], now = 1100\<rparr>"

definition cached_2 :: state where
  "cached_2 =
     \<lparr>grab_log = [failed ''things'' ''{}'' TypeError_keys,
                  succeeded ''things'' ''{}'' 0 1100, tracking ''things'' ''{}'' 1000 0],
      grab_defaults = no_options, heap = [(0, cleared_thing TypeError_keys)], next_ref = 1,
      next_controller = 1, aborted = [], sent = [get_things ''force-cache''], intervals = [],
      now = 6100\<rparr>"

text \<open>
  C1 at the input of the spec's own scenario: \<^verbatim>\<open>grab("/things", {cache: true,
  cacheForTime: 60, response})\<close> twice, five seconds apart. The first call records its
  response. The second call is a cache hit, reads \<^verbatim>\<open>priorRequest.res\<close> and throws: its
  container has every field of the recorded response set to \<^verbatim>\<open>undefined\<close> and the
  \<^verbatim>\<open>TypeError\<close> as its error; the transport is not invoked again.
\<close>

theorem cache_hit_throws:
  "grab tr_thing ''/things'' (Some cache_options) (initial_state [] 1 1000)
     = (Resolved (RObject 0), cached_1) \<and>
   cache_hit ''things'' cache_options (later 5000 cached_1) \<and>
   grab tr_thing ''/things'' (Some cache_options) (later 5000 cached_1)
     = (Resolved (RObject 0), cached_2)"
proof -
  have "grab tr_thing ''/things'' (Some cache_options) (initial_state [] 1 1000)
     = (Resolved (RObject 0), cached_1)"
    by code_simp
  moreover have "cache_hit ''things'' cache_options (later 5000 cached_1)"
    by code_simp
  moreover have "grab tr_thing ''/things'' (Some cache_options) (later 5000 cached_1)
     = (Resolved (RObject 0), cached_2)"
    by code_simp
  ultimately show ?thesis by simp
qed

subsection \<open>Three calls under a rate limit\<close>

definition rate_options :: options where
  "rate_options = no_options\<lparr>o_response := Some 0, o_rateLimit := Some 5\<rparr>"

definition rate_1 :: state where
  "rate_1 =
     \<lparr>grab_log = [succeeded ''things'' ''{}'' 0 1100, tracking ''things'' ''{}'' 1000 0],
      grab_defaults = no_options, heap = [(0, thing)], next_ref = 1, next_controller = 1,
      aborted = [], sent = [get_things ''no-store''], intervals = [], now = 1100\<rparr>"

definition rate_2 :: state where
  "rate_2 =
     \<lparr>grab_log = [failed ''things'' ''{}'' (rate_limit_message ''things'' 5),
                  succeeded ''things'' ''{}'' 0 1100, tracking ''things'' ''{}'' 1000 0],
      grab_defaults = no_options,
      heap = [(0, cleared_thing (rate_limit_message ''things'' 5))],
      next_ref = 1, next_controller = 1, aborted = [], sent = [get_things ''no-store''],
      intervals = [], now = 2100\<rparr>"

definition rate_3 :: state where
  "rate_3 =
     \<lparr>grab_log = [succeeded ''things'' ''{}'' 0 3200, tracking ''things'' ''{}'' 3100 1,
                  failed ''things'' ''{}'' (rate_limit_message ''things'' 5),
                  succeeded ''things'' ''{}'' 0 1100, tracking ''things'' ''{}'' 1000 0],
      grab_defaults = no_options, heap = [(0, thing @ [(''error'', JUndef)])],
      next_ref = 1, next_controller = 2, aborted = [],
      sent = [get_things ''no-store'', get_things ''no-store''], intervals = [],
      now = 3200\<rparr>"

text \<open>
  C4 at three calls to the same key, one second apart, with \<^verbatim>\<open>rateLimit: 5\<close>. The second
  call is rejected and its error is recorded without a timestamp (lines 481-485). That
  entry is the first match for the third call, so \<^verbatim>\<open>priorRequest?.lastFetchTime\<close> is
  \<^verbatim>\<open>undefined\<close> and the third call reaches the transport, 2.1 s after the response
  recorded at 1100.
\<close>

theorem rate_limit_lets_third_call_through:
  "grab tr_thing ''/things'' (Some rate_options) (initial_state [] 1 1000)
     = (Resolved (RObject 0), rate_1) \<and>
   grab tr_thing ''/things'' (Some rate_options) (later 1000 rate_1)
     = (Resolved (RObject 0), rate_2) \<and>
   grab tr_thing ''/things'' (Some rate_options) (later 1000 rate_2)
     = (Resolved (RObject 0), rate_3)"
proof -
  have "grab tr_thing ''/things'' (Some rate_options) (initial_state [] 1 1000)
     = (Resolved (RObject 0), rate_1)"
    by code_simp
  moreover have "grab tr_thing ''/things'' (Some rate_options) (later 1000 rate_1)
     = (Resolved (RObject 0), rate_2)"
    by code_simp
  moreover have "grab tr_thing ''/things'' (Some rate_options) (later 1000 rate_2)
     = (Resolved (RObject 0), rate_3)"
    by code_simp
  ultimately show ?thesis by simp
qed

subsection \<open>A call without options\<close>

text \<open>
  C5 at \<^verbatim>\<open>grab("things")\<close> with the transport down: the handler reads
  \<^verbatim>\<open>options.retryAttempts\<close> of \<^verbatim>\<open>undefined\<close> and the promise rejects; no error is written
  into a container or into the log.
\<close>

theorem no_options_rejects:
  "grab tr_down ''things'' None (initial_state [] 0 1000) =
     (Rejected TypeError_read_retryAttempts,
      \<lparr>grab_log = [tracking ''things'' ''{}'' 1000 0], grab_defaults = no_options,
       heap = [(0, [(''isLoading'', JBool True)])], next_ref = 1, next_controller = 1,
       aborted = [], sent = [get_things ''no-store''], intervals = [], now = 1010\<rparr>)"
  by code_simp

text \<open>With an options object, whatever it holds, the promise resolves.\<close>

lemma grab_with_options_resolves:
  "oo \<noteq> None \<longrightarrow> (\<exists>r. fst (grab tr path0 oo s0) = Resolved r)"
proof (induction tr path0 oo s0 rule: grab.induct)
  case (1 tr path0 oo s0)
  show ?case
  proof
    assume "oo \<noteq> None"
    then obtain p where oo: "oo = Some p" by auto
    show "\<exists>r. fst (grab tr path0 oo s0) = Resolved r"
      apply (subst grab.simps)
      using "1.IH"(2) oo
      apply (auto simp: Let_def split: prod.splits flow.splits option.splits if_splits)
      done
  qed
qed

subsection \<open>Debounce\<close>

text \<open>
  C2: with a positive \<^verbatim>\<open>debounce\<close> the call returns the function that \<^verbatim>\<open>debouncer\<close> builds
  and does nothing else: nothing is sent, no timer is set, the log is as it was. The burst
  of the spec (calls at 0, 10 and 20 ms, \<^verbatim>\<open>debounce: 0.05\<close>) executes no call at all.
\<close>

theorem debounce_never_executes:
  assumes "0 < debounce (merge_options (grab_defaults s) oo)"
  shows "fst (grab tr path oo s) = Resolved RFunction \<and>
         sent (snd (grab tr path oo s)) = sent s \<and>
         intervals (snd (grab tr path oo s)) = intervals s \<and>
         grab_log (snd (grab tr path oo s)) = grab_log s"
  using assms
  by (subst (1 2 3 4) grab.simps) (simp add: Let_def response_var_frame)

definition debounce_options :: "string \<Rightarrow> options" where
  "debounce_options q =
     no_options\<lparr>o_response := Some 0, o_debounce := Some (1 / 20), o_params := [(''q'', JStr q)]\<rparr>"

theorem debounce_never_executes_witness:
  "0 < debounce (merge_options (grab_defaults (initial_state [] 1 20))
          (Some (debounce_options ''tea''))) \<and>
   grab tr_thing ''/search'' (Some (debounce_options ''t'')) (initial_state [] 1 0)
     = (Resolved RFunction, initial_state [] 1 0) \<and>
   grab tr_thing ''/search'' (Some (debounce_options ''te'')) (initial_state [] 1 10)
     = (Resolved RFunction, initial_state [] 1 10) \<and>
   grab tr_thing ''/search'' (Some (debounce_options ''tea'')) (initial_state [] 1 20)
     = (Resolved RFunction, initial_state [] 1 20) \<and>
   sent (snd (grab tr_thing ''/search'' (Some (debounce_options ''tea''))
     (initial_state [] 1 20))) = [] \<and>
   intervals (snd (grab tr_thing ''/search'' (Some (debounce_options ''tea''))
     (initial_state [] 1 20))) = []"
proof -
  have a: "0 < debounce (merge_options (grab_defaults (initial_state [] 1 20))
          (Some (debounce_options ''tea'')))"
    by code_simp
  have b: "grab tr_thing ''/search'' (Some (debounce_options ''t'')) (initial_state [] 1 0)
     = (Resolved RFunction, initial_state [] 1 0)"
    by code_simp
  have c: "grab tr_thing ''/search'' (Some (debounce_options ''te'')) (initial_state [] 1 10)
     = (Resolved RFunction, initial_state [] 1 10)"
    by code_simp
  have d: "grab tr_thing ''/search'' (Some (debounce_options ''tea'')) (initial_state [] 1 20)
     = (Resolved RFunction, initial_state [] 1 20)"
    by code_simp
  show ?thesis
    using a b c d debounce_never_executes[OF a, of tr_thing "''/search''"]
    by (simp add: initial_state_def)
qed


section \<open>Abort handle and timeout\<close>





















section \<open>Failures in the log\<close>











section \<open>Accumulating pages\<close>





















end
